theory Spec2Isabelle
  imports Main
begin

section \<open>pronto.relationship: the memoized Relationship class\<close>

text \<open>
  The module keeps one class-level dictionary, \<^verbatim>\<open>Relationship._instances\<close>
  (a \<^verbatim>\<open>collections.OrderedDict\<close>), from names and aliases to Relationship
  objects. Objects are compared by identity, so the model has an explicit store:
  an object is an address into \<open>heap\<close>, and the dictionary holds addresses.
\<close>

subsection \<open>Values, objects and the store\<close>

datatype error = KeyError string | ValueError string | AttributeError string

type_synonym ref = nat

text \<open>The attributes \<^verbatim>\<open>__init__\<close> sets on \<^verbatim>\<open>self\<close>.\<close>

record attrs =
  obo_name :: string
  symmetry :: "bool option"
  transitivity :: "bool option"
  reflexivity :: "bool option"
  complementary :: string
  prefix :: string
  direction :: string
  comment :: string
  aliases :: "string list"

text \<open>
  The keyword parameters of \<^verbatim>\<open>__init__\<close>; each defaults to \<^verbatim>\<open>None\<close>.
\<close>

record kwargs =
  kw_symmetry :: "bool option"
  kw_transitivity :: "bool option"
  kw_reflexivity :: "bool option"
  kw_complementary :: "string option"
  kw_prefix :: "string option"
  kw_direction :: "string option"
  kw_comment :: "string option"
  kw_aliases :: "string list option"

definition no_kwargs :: kwargs where
  "no_kwargs = \<lparr>kw_symmetry = None, kw_transitivity = None, kw_reflexivity = None,
     kw_complementary = None, kw_prefix = None, kw_direction = None,
     kw_comment = None, kw_aliases = None\<rparr>"

text \<open>
  The store. \<open>heap s ! r\<close> is the attribute dictionary of the object at address \<open>r\<close>:
  \<open>None\<close> for an instance that \<^verbatim>\<open>object.__new__\<close> has allocated and on which
  no attribute has been set. \<open>instances\<close> is \<^verbatim>\<open>Relationship._instances\<close>, in
  insertion order.
\<close>

record state =
  heap :: "attrs option list"
  instances :: "(string \<times> ref) list"

definition empty_state :: state where
  "empty_state = \<lparr>heap = [], instances = []\<rparr>"

definition attrs_of :: "state \<Rightarrow> ref \<Rightarrow> attrs option" where
  "attrs_of s r = (if r < length (heap s) then heap s ! r else None)"

subsection \<open>The ordered dictionary\<close>

text \<open>
  \<^verbatim>\<open>d[k] = v\<close> on an OrderedDict: a key already present keeps its position and
  gets the new value, a new key goes to the end.
\<close>

fun setitem :: "'k \<Rightarrow> 'v \<Rightarrow> ('k \<times> 'v) list \<Rightarrow> ('k \<times> 'v) list" where
  "setitem k v [] = [(k, v)]"
| "setitem k v ((k', v') # d) =
     (if k' = k then (k, v) # d else (k', v') # setitem k v d)"

definition getitem :: "(string \<times> 'v) list \<Rightarrow> string \<Rightarrow> error + 'v" where
  "getitem d k = (case map_of d k of None \<Rightarrow> Inl (KeyError k) | Some v \<Rightarrow> Inr v)"

definition contains :: "('k \<times> 'v) list \<Rightarrow> 'k \<Rightarrow> bool" where
  "contains d k = (map_of d k \<noteq> None)"

definition values_of :: "('k \<times> 'v) list \<Rightarrow> 'v list" where
  "values_of d = map snd d"

subsection \<open>Construction: \<^verbatim>\<open>__new__\<close>, \<^verbatim>\<open>__init__\<close> and the call \<^verbatim>\<open>Relationship(...)\<close>\<close>

text \<open>
  \<^verbatim>\<open>__new__\<close> returns the registered object when \<^verbatim>\<open>obo_name\<close> is a key of
  \<^verbatim>\<open>_instances\<close>, and a freshly allocated instance otherwise. It does not touch
  \<^verbatim>\<open>_instances\<close>.
\<close>

definition relationship_new :: "string \<Rightarrow> state \<Rightarrow> ref \<times> state" where
  "relationship_new name s =
     (case map_of (instances s) name of
        Some r \<Rightarrow> (r, s)
      | None \<Rightarrow> (length (heap s), s\<lparr>heap := heap s @ [None]\<rparr>))"

text \<open>Python's \<^verbatim>\<open>x or ''\<close> and \<^verbatim>\<open>x or list()\<close> for an optional argument.\<close>

definition or_empty :: "'a list option \<Rightarrow> 'a list" where
  "or_empty x = (case x of None \<Rightarrow> [] | Some v \<Rightarrow> v)"

definition register_alias :: "ref \<Rightarrow> string \<Rightarrow> state \<Rightarrow> state" where
  "register_alias self alias s = s\<lparr>instances := setitem alias self (instances s)\<rparr>"

text \<open>
  \<^verbatim>\<open>__init__\<close>, line by line; note \<^verbatim>\<open>self.transitivity = reflexivity\<close>.
\<close>

definition relationship_init :: "ref \<Rightarrow> string \<Rightarrow> kwargs \<Rightarrow> state \<Rightarrow> state" where
  "relationship_init self name kw s =
     (if \<not> contains (instances s) name then
        let a = \<lparr>obo_name = name,
                 symmetry = kw_symmetry kw,
                 transitivity = kw_reflexivity kw,
                 reflexivity = kw_reflexivity kw,
                 complementary = or_empty (kw_complementary kw),
                 prefix = or_empty (kw_prefix kw),
                 direction = or_empty (kw_direction kw),
                 comment = or_empty (kw_comment kw),
                 aliases = or_empty (kw_aliases kw)\<rparr>;
            s1 = s\<lparr>heap := (heap s)[self := Some a]\<rparr>;
            s2 = s1\<lparr>instances := setitem name self (instances s1)\<rparr>
        in fold (register_alias self) (aliases a) s2
      else s)"

text \<open>
  The call \<^verbatim>\<open>Relationship(obo_name, **kw)\<close>: Python calls \<^verbatim>\<open>__new__\<close> and then
  \<^verbatim>\<open>__init__\<close> on the object \<^verbatim>\<open>__new__\<close> returned (it is an instance of the
  class in both branches).
\<close>

definition Relationship :: "string \<Rightarrow> kwargs \<Rightarrow> state \<Rightarrow> ref \<times> state" where
  "Relationship name kw s =
     (let (self, s1) = relationship_new name s
      in (self, relationship_init self name kw s1))"

subsection \<open>\<^verbatim>\<open>complement\<close>\<close>

text \<open>
  \<^verbatim>\<open>complement\<close> reads \<^verbatim>\<open>self.complementary\<close> and \<^verbatim>\<open>_instances\<close>. The
  \<^verbatim>\<open>KeyError\<close> of the lookup is caught and replaced by a \<^verbatim>\<open>ValueError\<close> whose
  message is the literal string of the source (it has a \<^verbatim>\<open>{}\<close> placeholder and no
  \<^verbatim>\<open>.format\<close> call). The state is returned as well, to say what the call does to it.
  Reading an attribute of an instance that has none raises \<^verbatim>\<open>AttributeError\<close>.
\<close>

definition complement :: "ref \<Rightarrow> state \<Rightarrow> (error + ref option) \<times> state" where
  "complement self s =
     (case attrs_of s self of
        None \<Rightarrow> (Inl (AttributeError ''complementary''), s)
      | Some a \<Rightarrow>
          if complementary a \<noteq> [] then
            (case getitem (instances s) (complementary a) of
               Inr r \<Rightarrow> (Inr (Some r), s)
             | Inl e \<Rightarrow> (Inl (ValueError ''{} has a complementary but it was not defined !''), s))
          else (Inr None, s))"

subsection \<open>\<^verbatim>\<open>topdown\<close> and \<^verbatim>\<open>bottomup\<close>\<close>

text \<open>
  Modelled from the spec: \<^verbatim>\<open>unique_everseen\<close> is imported from \<^verbatim>\<open>pronto/utils.py\<close>,
  which is not among the sources. The specification (section 4.3) says the queries
  remove duplicates by identity and keep first-seen order: an element is yielded the
  first time it is met and skipped afterwards.
\<close>

fun unique_everseen_from :: "'a list \<Rightarrow> 'a list \<Rightarrow> 'a list" where
  "unique_everseen_from seen [] = []"
| "unique_everseen_from seen (x # xs) =
     (if x \<in> set seen then unique_everseen_from seen xs
      else x # unique_everseen_from (x # seen) xs)"

definition unique_everseen :: "'a list \<Rightarrow> 'a list" where
  "unique_everseen xs = unique_everseen_from [] xs"

text \<open>
  The generator \<^verbatim>\<open>(r for r in cls._instances.values() if r.direction == d)\<close>:
  reading \<^verbatim>\<open>r.direction\<close> on an instance without attributes raises.
\<close>

fun with_direction :: "string \<Rightarrow> state \<Rightarrow> ref list \<Rightarrow> error + ref list" where
  "with_direction d s [] = Inr []"
| "with_direction d s (r # rs) =
     (case attrs_of s r of
        None \<Rightarrow> Inl (AttributeError ''direction'')
      | Some a \<Rightarrow>
          (case with_direction d s rs of
             Inl e \<Rightarrow> Inl e
           | Inr out \<Rightarrow> Inr (if direction a = d then r # out else out)))"

definition topdown :: "state \<Rightarrow> (error + ref list) \<times> state" where
  "topdown s =
     (case with_direction ''topdown'' s (values_of (instances s)) of
        Inl e \<Rightarrow> (Inl e, s)
      | Inr rs \<Rightarrow> (Inr (unique_everseen rs), s))"

definition bottomup :: "state \<Rightarrow> (error + ref list) \<times> state" where
  "bottomup s =
     (case with_direction ''bottomup'' s (values_of (instances s)) of
        Inl e \<Rightarrow> (Inl e, s)
      | Inr rs \<Rightarrow> (Inr (unique_everseen rs), s))"

subsection \<open>Pickling\<close>

text \<open>
  The class defines \<^verbatim>\<open>__getnewargs__\<close> (the one-element tuple of the name),
  \<^verbatim>\<open>__getstate__\<close> (returns \<^verbatim>\<open>None\<close>) and \<^verbatim>\<open>__setstate__\<close> (does nothing).
\<close>

definition getnewargs :: "ref \<Rightarrow> state \<Rightarrow> error + string" where
  "getnewargs self s =
     (case attrs_of s self of
        None \<Rightarrow> Inl (AttributeError ''obo_name'')
      | Some a \<Rightarrow> Inr (obo_name a))"

definition getstate :: "ref \<Rightarrow> state \<Rightarrow> attrs option" where
  "getstate self s = None"

definition setstate :: "ref \<Rightarrow> attrs \<Rightarrow> state \<Rightarrow> state" where
  "setstate self st s = s"

text \<open>
  With pickle protocol 2 or later (the class docstring requires it) an object is
  written as its class, the tuple of \<^verbatim>\<open>__getnewargs__\<close> and the value of
  \<^verbatim>\<open>__getstate__\<close>; it is read back by calling \<^verbatim>\<open>cls.__new__(cls, *args)\<close>, and
  then \<^verbatim>\<open>__setstate__\<close> when a state was written. \<^verbatim>\<open>__init__\<close> is not called on
  reading. \<open>pickled\<close> is what is written for a Relationship.
\<close>

type_synonym pickled = "string \<times> attrs option"

definition dumps :: "ref \<Rightarrow> state \<Rightarrow> error + pickled" where
  "dumps self s =
     (case getnewargs self s of
        Inl e \<Rightarrow> Inl e
      | Inr name \<Rightarrow> Inr (name, getstate self s))"

definition loads :: "pickled \<Rightarrow> state \<Rightarrow> ref \<times> state" where
  "loads p s =
     (let (r, s1) = relationship_new (fst p) s
      in case snd p of None \<Rightarrow> (r, s1) | Some st \<Rightarrow> (r, setstate r st s1))"

subsection \<open>The OBO stanza adapter \<^verbatim>\<open>_from_obo_dict\<close>\<close>

text \<open>
  \<^verbatim>\<open>str.lower\<close>: the letters A to Z are replaced by a to z; every other character
  is left as it is. No character outside ASCII lowers to a letter of \<^verbatim>\<open>"true"\<close> or
  \<^verbatim>\<open>"false"\<close>, so the comparisons below agree with Python's on every string.
\<close>

definition lower_char :: "char \<Rightarrow> char" where
  "lower_char c =
     (case map_of (zip ''ABCDEFGHIJKLMNOPQRSTUVWXYZ'' ''abcdefghijklmnopqrstuvwxyz'') c of
        Some l \<Rightarrow> l
      | None \<Rightarrow> c)"

definition lower :: "string \<Rightarrow> string" where
  "lower v = map lower_char v"

text \<open>\<^verbatim>\<open>symmetry or None\<close>: only \<^verbatim>\<open>True\<close> is truthy among \<^verbatim>\<open>True\<close>, \<^verbatim>\<open>False\<close>, \<^verbatim>\<open>None\<close>.\<close>

definition or_None :: "bool option \<Rightarrow> bool option" where
  "or_None x = (if x = Some True then x else None)"

definition from_obo_dict :: "(string \<rightharpoonup> string) \<Rightarrow> state \<Rightarrow> (error + ref) \<times> state" where
  "from_obo_dict d s =
     (case d ''id'' of
        None \<Rightarrow> (Inl (KeyError ''id''), s)
      | Some ident \<Rightarrow>
          (case map_of (instances s) ident of
             Some r \<Rightarrow> (Inr r, s)
           | None \<Rightarrow>
               let complementary0 = (case d ''inverse_of'' of Some v \<Rightarrow> v | None \<Rightarrow> []);
                   transitivity0 = (case d ''is_transitive'' of
                                      Some v \<Rightarrow> Some (lower v = ''true'') | None \<Rightarrow> None);
                   symmetry0 = (case d ''is_symmetric'' of
                                  Some v \<Rightarrow> Some (lower v = ''true'') | None \<Rightarrow> None);
                   reflexivity0 = (case d ''is_reflexive'' of
                                     Some v \<Rightarrow> Some (lower v = ''true'') | None \<Rightarrow> None);
                   symmetry1 = (case d ''is_antisymetric'' of
                                  Some v \<Rightarrow> Some (lower v = ''false'') | None \<Rightarrow> or_None symmetry0);
                   (r, s') = Relationship ident
                               (no_kwargs\<lparr>kw_symmetry := symmetry1,
                                  kw_transitivity := transitivity0,
                                  kw_reflexivity := reflexivity0,
                                  kw_complementary := Some complementary0\<rparr>) s
               in (Inr r, s')))"

subsection \<open>The registrations made when the module is imported\<close>

definition seed_registrations :: "(string \<times> kwargs) list" where
  "seed_registrations =
     [(''is_a'', no_kwargs\<lparr>kw_symmetry := Some False, kw_transitivity := Some True,
         kw_reflexivity := Some True, kw_complementary := Some ''can_be'',
         kw_direction := Some ''bottomup''\<rparr>),
      (''can_be'', no_kwargs\<lparr>kw_symmetry := Some False, kw_transitivity := Some True,
         kw_reflexivity := Some True, kw_complementary := Some ''is_a'',
         kw_direction := Some ''topdown''\<rparr>),
      (''has_part'', no_kwargs\<lparr>kw_symmetry := Some False, kw_transitivity := Some True,
         kw_reflexivity := Some True, kw_complementary := Some ''part_of'',
         kw_direction := Some ''topdown''\<rparr>),
      (''part_of'', no_kwargs\<lparr>kw_symmetry := Some False, kw_transitivity := Some True,
         kw_reflexivity := Some True, kw_complementary := Some ''has_part'',
         kw_direction := Some ''bottomup'', kw_aliases := Some [''is_part'']\<rparr>),
      (''has_units'', no_kwargs\<lparr>kw_symmetry := Some False, kw_transitivity := Some False,
         kw_reflexivity := None\<rparr>),
      (''has_domain'', no_kwargs\<lparr>kw_symmetry := Some False, kw_transitivity := Some False\<rparr>)]"

definition register_all :: "(string \<times> kwargs) list \<Rightarrow> state \<Rightarrow> state" where
  "register_all calls s = fold (\<lambda>(name, kw) st. snd (Relationship name kw st)) calls s"

definition seeded :: state where
  "seeded = register_all seed_registrations empty_state"

section \<open>Lemmas on the dictionary and on construction\<close>

lemmas construction_defs =
  Relationship_def relationship_new_def relationship_init_def contains_def
  or_empty_def register_alias_def no_kwargs_def

lemma map_of_setitem:
  "map_of (setitem k v d) = (map_of d)(k \<mapsto> v)"
  by (induction d) (auto simp: fun_eq_iff)

lemma instances_register_alias:
  "map_of (instances (register_alias self alias s)) = (map_of (instances s))(alias \<mapsto> self)"
  by (simp add: register_alias_def map_of_setitem)

lemma heap_fold_register_alias:
  "heap (fold (register_alias self) as s) = heap s"
  by (induction as arbitrary: s) (simp_all add: register_alias_def)

lemma map_of_fold_register_alias:
  "map_of (instances (fold (register_alias self) as s)) k =
     (if k \<in> set as then Some self else map_of (instances s) k)"
  by (induction as arbitrary: s) (auto simp: instances_register_alias)

text \<open>A registered name: the call returns the registered object and changes nothing.\<close>

lemma Relationship_registered:
  assumes "map_of (instances s) name = Some r"
  shows "Relationship name kw s = (r, s)"
  using assms
  by (simp add: Relationship_def relationship_new_def relationship_init_def contains_def)

text \<open>
  A name that is not registered: the call allocates the next address, sets the nine
  attributes there, and binds the name and every alias to it.
\<close>

lemma Relationship_fresh:
  assumes "map_of (instances s) name = None"
  shows "fst (Relationship name kw s) = length (heap s)"
  using assms by (simp add: Relationship_def relationship_new_def)

lemma Relationship_fresh_state:
  assumes "map_of (instances s) name = None"
  shows "heap (snd (Relationship name kw s)) =
           heap s @ [Some \<lparr>obo_name = name,
                 symmetry = kw_symmetry kw,
                 transitivity = kw_reflexivity kw,
                 reflexivity = kw_reflexivity kw,
                 complementary = or_empty (kw_complementary kw),
                 prefix = or_empty (kw_prefix kw),
                 direction = or_empty (kw_direction kw),
                 comment = or_empty (kw_comment kw),
                 aliases = or_empty (kw_aliases kw)\<rparr>]"
  using assms
  by (simp add: Relationship_def relationship_new_def relationship_init_def contains_def
      Let_def heap_fold_register_alias)

lemma Relationship_fresh_attrs:
  assumes "map_of (instances s) name = None"
  shows "attrs_of (snd (Relationship name kw s)) (fst (Relationship name kw s)) =
           Some \<lparr>obo_name = name,
                 symmetry = kw_symmetry kw,
                 transitivity = kw_reflexivity kw,
                 reflexivity = kw_reflexivity kw,
                 complementary = or_empty (kw_complementary kw),
                 prefix = or_empty (kw_prefix kw),
                 direction = or_empty (kw_direction kw),
                 comment = or_empty (kw_comment kw),
                 aliases = or_empty (kw_aliases kw)\<rparr>"
  using assms
  by (simp add: attrs_of_def Relationship_fresh_state Relationship_fresh)

lemma Relationship_fresh_instances:
  assumes "map_of (instances s) name = None"
  shows "map_of (instances (snd (Relationship name kw s))) k =
           (if k = name \<or> k \<in> set (or_empty (kw_aliases kw)) then Some (length (heap s))
            else map_of (instances s) k)"
  using assms
  by (simp add: Relationship_def relationship_new_def relationship_init_def contains_def
      Let_def map_of_fold_register_alias map_of_setitem)

lemma Relationship_registers:
  "map_of (instances (snd (Relationship name kw s))) name = Some (fst (Relationship name kw s))"
proof (cases "map_of (instances s) name")
  case (Some r)
  then show ?thesis by (simp add: Relationship_registered)
next
  case None
  then show ?thesis by (simp add: Relationship_fresh_instances Relationship_fresh)
qed

text \<open>The state after the six registrations at the end of the module, computed.\<close>

lemma seeded_eq:
  "seeded =
     \<lparr>heap =
        [Some \<lparr>obo_name = ''is_a'', symmetry = Some False, transitivity = Some True,
           reflexivity = Some True, complementary = ''can_be'', prefix = [],
           direction = ''bottomup'', comment = [], aliases = []\<rparr>,
         Some \<lparr>obo_name = ''can_be'', symmetry = Some False, transitivity = Some True,
           reflexivity = Some True, complementary = ''is_a'', prefix = [],
           direction = ''topdown'', comment = [], aliases = []\<rparr>,
         Some \<lparr>obo_name = ''has_part'', symmetry = Some False, transitivity = Some True,
           reflexivity = Some True, complementary = ''part_of'', prefix = [],
           direction = ''topdown'', comment = [], aliases = []\<rparr>,
         Some \<lparr>obo_name = ''part_of'', symmetry = Some False, transitivity = Some True,
           reflexivity = Some True, complementary = ''has_part'', prefix = [],
           direction = ''bottomup'', comment = [], aliases = [''is_part'']\<rparr>,
         Some \<lparr>obo_name = ''has_units'', symmetry = Some False, transitivity = None,
           reflexivity = None, complementary = [], prefix = [],
           direction = [], comment = [], aliases = []\<rparr>,
         Some \<lparr>obo_name = ''has_domain'', symmetry = Some False, transitivity = None,
           reflexivity = None, complementary = [], prefix = [],
           direction = [], comment = [], aliases = []\<rparr>],
      instances =
        [(''is_a'', 0), (''can_be'', 1), (''has_part'', 2), (''part_of'', 3),
         (''is_part'', 3), (''has_units'', 4), (''has_domain'', 5)]\<rparr>"
  by (simp add: seeded_def register_all_def seed_registrations_def empty_state_def
      construction_defs)

lemma seeded_heap_length: "length (heap seeded) = 6"
  by (simp add: seeded_eq)

section \<open>Construction\<close>

text \<open>
  A record that is registered under \<open>N\<close> stays registered under \<open>N\<close>, with its
  attributes, through a construction request that is for \<open>N\<close> itself or that does not
  list \<open>N\<close> among its aliases, and so through any sequence of such requests.
\<close>

lemma Relationship_keeps_entry:
  assumes "map_of (instances st) N = Some r"
    and "attrs_of st r = Some a"
    and "n \<noteq> N \<longrightarrow> N \<notin> set (or_empty (kw_aliases kw))"
  shows "map_of (instances (snd (Relationship n kw st))) N = Some r
       \<and> attrs_of (snd (Relationship n kw st)) r = Some a"
proof (cases "map_of (instances st) n")
  case (Some r')
  then show ?thesis using assms(1,2) by (simp add: Relationship_registered)
next
  case None
  then have "n \<noteq> N" using assms(1) by auto
  then have no_alias: "N \<notin> set (or_empty (kw_aliases kw))" using assms(3) by simp
  have old: "r < length (heap st)"
    using assms(2) by (simp add: attrs_of_def split: if_splits)
  have "map_of (instances (snd (Relationship n kw st))) N = Some r"
    using None \<open>n \<noteq> N\<close> no_alias assms(1) by (simp add: Relationship_fresh_instances)
  moreover have "attrs_of (snd (Relationship n kw st)) r = Some a"
    using None assms(2) old by (simp add: attrs_of_def Relationship_fresh_state nth_append)
  ultimately show ?thesis by simp
qed

lemma register_all_keeps_entry:
  assumes "map_of (instances st) N = Some r"
    and "attrs_of st r = Some a"
    and "\<forall>(n, kw) \<in> set calls. n \<noteq> N \<longrightarrow> N \<notin> set (or_empty (kw_aliases kw))"
  shows "map_of (instances (register_all calls st)) N = Some r
       \<and> attrs_of (register_all calls st) r = Some a"
  using assms
proof (induction calls arbitrary: st)
  case Nil
  then show ?case by (simp add: register_all_def)
next
  case (Cons c calls)
  obtain n kw where c: "c = (n, kw)" by (cases c)
  have step: "map_of (instances (snd (Relationship n kw st))) N = Some r
       \<and> attrs_of (snd (Relationship n kw st)) r = Some a"
    using Cons.prems c by (intro Relationship_keeps_entry) auto
  have rest: "\<forall>(n, kw) \<in> set calls. n \<noteq> N \<longrightarrow> N \<notin> set (or_empty (kw_aliases kw))"
    using Cons.prems(3) by simp
  have "register_all (c # calls) st = register_all calls (snd (Relationship n kw st))"
    by (simp add: register_all_def c)
  then show ?case
    using Cons.IH [of "snd (Relationship n kw st)"] step rest by simp
qed

text \<open>
  Claim C1, as stated, fails: a later request for \<open>N\<close> need not return the record
  the first request registered. After the module's registrations,
  \<^verbatim>\<open>Relationship('regulates', symmetry=True)\<close> registers \<^verbatim>\<open>regulates\<close> as
  object 6; then \<^verbatim>\<open>Relationship('controls', symmetry=False,
  aliases=['regulates'])\<close> creates object 7 and binds the key \<^verbatim>\<open>regulates\<close> to it;
  the later request \<^verbatim>\<open>Relationship('regulates')\<close> returns object 7, whose symmetry
  is \<^verbatim>\<open>False\<close>.
\<close>

theorem later_request_same_record_counterexample:
  "map_of (instances seeded) ''regulates'' = None
   \<and> fst (Relationship ''regulates''
        \<lparr>kw_symmetry = Some True, kw_transitivity = None, kw_reflexivity = None,
           kw_complementary = None, kw_prefix = None, kw_direction = None,
           kw_comment = None, kw_aliases = None\<rparr> seeded) = 6
   \<and> fst (Relationship ''regulates''
        \<lparr>kw_symmetry = None, kw_transitivity = None, kw_reflexivity = None,
           kw_complementary = None, kw_prefix = None, kw_direction = None,
           kw_comment = None, kw_aliases = None\<rparr>
        (snd (Relationship ''controls''
           \<lparr>kw_symmetry = Some False, kw_transitivity = None, kw_reflexivity = None,
              kw_complementary = None, kw_prefix = None, kw_direction = None,
              kw_comment = None, kw_aliases = Some [''regulates'']\<rparr>
           (snd (Relationship ''regulates''
              \<lparr>kw_symmetry = Some True, kw_transitivity = None, kw_reflexivity = None,
                 kw_complementary = None, kw_prefix = None, kw_direction = None,
                 kw_comment = None, kw_aliases = None\<rparr> seeded))))) = 7
   \<and> map_option symmetry (attrs_of
        (snd (Relationship ''controls''
           \<lparr>kw_symmetry = Some False, kw_transitivity = None, kw_reflexivity = None,
              kw_complementary = None, kw_prefix = None, kw_direction = None,
              kw_comment = None, kw_aliases = Some [''regulates'']\<rparr>
           (snd (Relationship ''regulates''
              \<lparr>kw_symmetry = Some True, kw_transitivity = None, kw_reflexivity = None,
                 kw_complementary = None, kw_prefix = None, kw_direction = None,
                 kw_comment = None, kw_aliases = None\<rparr> seeded)))) 7) = Some (Some False)"
  by (simp add: seeded_eq construction_defs attrs_of_def)

text \<open>
  Claim C1, amended. When a construction request for a name \<open>N\<close> that is not yet
  registered has returned, it has allocated a new record, registered under \<open>N\<close>,
  whose name is \<open>N\<close> and whose symmetry, reflexivity, complementary, prefix,
  direction, comment and aliases are the request's arguments (empty where absent).
  After any sequence of further construction requests, none of which is for another
  name and lists \<open>N\<close> among its aliases, every later request for \<open>N\<close>, with any
  parameters, returns that very record with the attributes the first request gave it,
  and changes nothing: its parameters are discarded and the state, so the entry for
  \<open>N\<close>, is as before the request.
\<close>

theorem first_registration_wins:
  assumes "map_of (instances s) N = None"
    and "Relationship N kw1 s = (r, s1)"
    and "\<forall>(n, kw) \<in> set calls. n \<noteq> N \<longrightarrow> N \<notin> set (or_empty (kw_aliases kw))"
  shows "r = length (heap s)
       \<and> map_of (instances s1) N = Some r
       \<and> (\<exists>a. attrs_of s1 r = Some a
              \<and> obo_name a = N
              \<and> symmetry a = kw_symmetry kw1
              \<and> reflexivity a = kw_reflexivity kw1
              \<and> complementary a = or_empty (kw_complementary kw1)
              \<and> prefix a = or_empty (kw_prefix kw1)
              \<and> direction a = or_empty (kw_direction kw1)
              \<and> comment a = or_empty (kw_comment kw1)
              \<and> aliases a = or_empty (kw_aliases kw1)
              \<and> attrs_of (register_all calls s1) r = Some a
              \<and> attrs_of (snd (Relationship N kw2 (register_all calls s1))) r = Some a)
       \<and> Relationship N kw2 (register_all calls s1) = (r, register_all calls s1)"
proof -
  have r: "r = length (heap s)"
    using Relationship_fresh [OF assms(1), of kw1] assms(2) by simp
  have reg: "map_of (instances s1) N = Some r"
    using Relationship_registers [of N kw1 s] assms(2) by simp
  obtain a where a: "attrs_of s1 r = Some a"
    and fields: "obo_name a = N" "symmetry a = kw_symmetry kw1"
      "reflexivity a = kw_reflexivity kw1"
      "complementary a = or_empty (kw_complementary kw1)"
      "prefix a = or_empty (kw_prefix kw1)"
      "direction a = or_empty (kw_direction kw1)"
      "comment a = or_empty (kw_comment kw1)"
      "aliases a = or_empty (kw_aliases kw1)"
    using Relationship_fresh_attrs [OF assms(1), of kw1] assms(2) by simp
  have kept: "map_of (instances (register_all calls s1)) N = Some r
       \<and> attrs_of (register_all calls s1) r = Some a"
    using reg a assms(3) by (rule register_all_keeps_entry)
  then have again: "Relationship N kw2 (register_all calls s1) = (r, register_all calls s1)"
    by (simp add: Relationship_registered)
  show ?thesis
    using r reg a fields kept again by simp
qed

text \<open>
  After the module's registrations: \<^verbatim>\<open>regulates\<close> is registered with
  \<^verbatim>\<open>symmetry=True\<close> as object 6; then come a request for \<^verbatim>\<open>controls\<close> with the
  alias \<^verbatim>\<open>governs\<close> and a request for \<^verbatim>\<open>regulates\<close> with \<^verbatim>\<open>symmetry=False\<close>;
  a last request for \<^verbatim>\<open>regulates\<close> with \<^verbatim>\<open>direction='topdown'\<close> returns object 6,
  unchanged, with symmetry \<^verbatim>\<open>True\<close>.
\<close>

theorem first_registration_wins_witness:
  "Relationship ''regulates'' (no_kwargs\<lparr>kw_direction := Some ''topdown''\<rparr>)
     (register_all
        [(''controls'', no_kwargs\<lparr>kw_aliases := Some [''governs'']\<rparr>),
         (''regulates'', no_kwargs\<lparr>kw_symmetry := Some False\<rparr>)]
        (snd (Relationship ''regulates'' (no_kwargs\<lparr>kw_symmetry := Some True\<rparr>) seeded)))
   = (6, register_all
        [(''controls'', no_kwargs\<lparr>kw_aliases := Some [''governs'']\<rparr>),
         (''regulates'', no_kwargs\<lparr>kw_symmetry := Some False\<rparr>)]
        (snd (Relationship ''regulates'' (no_kwargs\<lparr>kw_symmetry := Some True\<rparr>) seeded)))
   \<and> map_option symmetry (attrs_of
        (register_all
          [(''controls'', no_kwargs\<lparr>kw_aliases := Some [''governs'']\<rparr>),
           (''regulates'', no_kwargs\<lparr>kw_symmetry := Some False\<rparr>)]
          (snd (Relationship ''regulates'' (no_kwargs\<lparr>kw_symmetry := Some True\<rparr>) seeded))) 6)
     = Some (Some True)"
proof -
  let ?kw1 = "no_kwargs\<lparr>kw_symmetry := Some True\<rparr>"
  let ?kw2 = "no_kwargs\<lparr>kw_direction := Some ''topdown''\<rparr>"
  let ?calls = "[(''controls'', no_kwargs\<lparr>kw_aliases := Some [''governs'']\<rparr>),
         (''regulates'', no_kwargs\<lparr>kw_symmetry := Some False\<rparr>)]"
  have h1: "map_of (instances seeded) ''regulates'' = None"
    by (simp add: seeded_eq)
  have h2: "Relationship ''regulates'' ?kw1 seeded = (6, snd (Relationship ''regulates'' ?kw1 seeded))"
    using Relationship_fresh [OF h1, of ?kw1]
    by (simp add: seeded_heap_length prod_eq_iff)
  have h3: "\<forall>(n, kw) \<in> set ?calls.
      n \<noteq> ''regulates'' \<longrightarrow> ''regulates'' \<notin> set (or_empty (kw_aliases kw))"
    by (simp add: or_empty_def no_kwargs_def)
  have sym: "kw_symmetry ?kw1 = Some True"
    by simp
  show ?thesis
    using first_registration_wins [OF h1 h2 h3, where ?kw2.0 = ?kw2] sym
    by (elim conjE exE) simp
qed

text \<open>
  Claim C2. A first-time construction should store every argument in the field of the
  same name. It does for eight of the nine fields (lemma \<open>Relationship_fresh_attrs\<close>),
  but \<^verbatim>\<open>__init__\<close> assigns \<^verbatim>\<open>self.transitivity = reflexivity\<close>: after the module's
  registrations, \<^verbatim>\<open>Relationship('regulates', transitivity=True)\<close> allocates object 6
  and its stored transitivity is \<^verbatim>\<open>None\<close>, the reflexivity argument, not \<^verbatim>\<open>True\<close>.
\<close>

theorem transitivity_argument_not_stored:
  "map_of (instances seeded) ''regulates'' = None \<and>
   fst (Relationship ''regulates''
          \<lparr>kw_symmetry = None, kw_transitivity = Some True, kw_reflexivity = None,
             kw_complementary = None, kw_prefix = None, kw_direction = None,
             kw_comment = None, kw_aliases = None\<rparr> seeded) = 6 \<and>
   map_option transitivity
     (attrs_of (snd (Relationship ''regulates''
          \<lparr>kw_symmetry = None, kw_transitivity = Some True, kw_reflexivity = None,
             kw_complementary = None, kw_prefix = None, kw_direction = None,
             kw_comment = None, kw_aliases = None\<rparr> seeded)) 6)
     = Some None"
  by (simp add: seeded_eq construction_defs attrs_of_def)

text \<open>
  Claim C3, as stated, fails: the loop over the aliases assigns
  \<^verbatim>\<open>self._instances[alias] = self\<close> with no test. After the module's registrations
  \<^verbatim>\<open>'has_part'\<close> keys object 2; constructing \<^verbatim>\<open>Relationship('contains',
  aliases=['has_part'])\<close> makes it key the new object 6.
\<close>

theorem alias_collision_counterexample:
  "map_of (instances seeded) ''has_part'' = Some 2 \<and>
   map_of (instances seeded) ''contains'' = None \<and>
   map_of (instances (snd (Relationship ''contains''
       \<lparr>kw_symmetry = None, kw_transitivity = None, kw_reflexivity = None,
          kw_complementary = None, kw_prefix = None, kw_direction = None,
          kw_comment = None, kw_aliases = Some [''has_part'']\<rparr> seeded))) ''has_part'' = Some 6"
  by (simp add: seeded_eq construction_defs)

text \<open>
  Claim C3, amended. When a record is constructed under a name that is not registered
  and its aliases contain a string \<open>K\<close> that already keys a record, then afterwards
  \<open>K\<close> keys the newly constructed record, which is a different object from the one
  \<open>K\<close> keyed before; that earlier record keeps its attributes. The construction has
  no error result.
\<close>

theorem alias_collision_overwrites:
  assumes "map_of (instances s) name = None"
    and "K \<in> set (or_empty (kw_aliases kw))"
    and "map_of (instances s) K = Some old"
    and "attrs_of s old = Some a"
  shows "map_of (instances (snd (Relationship name kw s))) K = Some (fst (Relationship name kw s))
       \<and> fst (Relationship name kw s) \<noteq> old
       \<and> attrs_of (snd (Relationship name kw s)) old = Some a"
proof -
  have new: "fst (Relationship name kw s) = length (heap s)"
    using assms(1) by (rule Relationship_fresh)
  have old: "old < length (heap s)"
    using assms(4) by (simp add: attrs_of_def split: if_splits)
  have "map_of (instances (snd (Relationship name kw s))) K = Some (length (heap s))"
    using assms(1,2) by (simp add: Relationship_fresh_instances)
  moreover have "attrs_of (snd (Relationship name kw s)) old = Some a"
    using assms(1,4) old by (simp add: attrs_of_def Relationship_fresh_state nth_append)
  ultimately show ?thesis using new old by simp
qed

theorem alias_collision_overwrites_witness:
  "map_of (instances (snd (Relationship ''contains''
       (no_kwargs\<lparr>kw_aliases := Some [''has_part'']\<rparr>) seeded))) ''has_part''
     = Some (fst (Relationship ''contains'' (no_kwargs\<lparr>kw_aliases := Some [''has_part'']\<rparr>) seeded))
   \<and> fst (Relationship ''contains'' (no_kwargs\<lparr>kw_aliases := Some [''has_part'']\<rparr>) seeded) \<noteq> 2
   \<and> map_option obo_name (attrs_of (snd (Relationship ''contains''
       (no_kwargs\<lparr>kw_aliases := Some [''has_part'']\<rparr>) seeded)) 2) = Some ''has_part''"
proof -
  have h1: "map_of (instances seeded) ''contains'' = None"
    by (simp add: seeded_eq)
  have h2: "''has_part'' \<in> set (or_empty (kw_aliases (no_kwargs\<lparr>kw_aliases := Some [''has_part'']\<rparr>)))"
    by (simp add: or_empty_def)
  have h3: "map_of (instances seeded) ''has_part'' = Some 2"
    by (simp add: seeded_eq)
  have h4: "attrs_of seeded 2 = Some \<lparr>obo_name = ''has_part'', symmetry = Some False,
      transitivity = Some True, reflexivity = Some True, complementary = ''part_of'',
      prefix = [], direction = ''topdown'', comment = [], aliases = []\<rparr>"
    by (simp add: seeded_eq attrs_of_def)
  show ?thesis
    using alias_collision_overwrites [OF h1 h2 h3 h4] by simp
qed

section \<open>Complement\<close>

text \<open>
  Claim C4, as stated, fails in its last part: the error raised for an unregistered
  complementary name is a \<^verbatim>\<open>ValueError\<close> whose message is a fixed string. With
  \<^verbatim>\<open>Relationship('develops_from', complementary='develops_into')\<close> and with
  \<^verbatim>\<open>Relationship('regulates', complementary='regulated_by')\<close>, each constructed
  after the module's registrations as object 6, \<^verbatim>\<open>complement()\<close> raises the very
  same error value: it carries neither missing name.
\<close>

theorem complement_error_counterexample:
  "fst (complement 6 (snd (Relationship ''develops_from''
      \<lparr>kw_symmetry = None, kw_transitivity = None, kw_reflexivity = None,
         kw_complementary = Some ''develops_into'', kw_prefix = None, kw_direction = None,
         kw_comment = None, kw_aliases = None\<rparr> seeded)))
     = Inl (ValueError ''{} has a complementary but it was not defined !'')
   \<and> fst (complement 6 (snd (Relationship ''regulates''
      \<lparr>kw_symmetry = None, kw_transitivity = None, kw_reflexivity = None,
         kw_complementary = Some ''regulated_by'', kw_prefix = None, kw_direction = None,
         kw_comment = None, kw_aliases = None\<rparr> seeded)))
     = Inl (ValueError ''{} has a complementary but it was not defined !'')"
  by (simp add: seeded_eq construction_defs complement_def attrs_of_def getitem_def)

text \<open>
  Claim C4, amended. For every record: \<^verbatim>\<open>complement()\<close> returns \<^verbatim>\<open>None\<close> when the
  record's complementary name is empty; it returns the registered record when the
  complementary name is set and registered; and it fails with a \<^verbatim>\<open>ValueError\<close>
  when the complementary name is set and not registered.
\<close>

theorem complement_contract:
  assumes "attrs_of s self = Some a"
  shows "(complementary a = [] \<longrightarrow> fst (complement self s) = Inr None)
       \<and> (\<forall>r. complementary a \<noteq> [] \<and> map_of (instances s) (complementary a) = Some r
              \<longrightarrow> fst (complement self s) = Inr (Some r))
       \<and> (complementary a \<noteq> [] \<and> map_of (instances s) (complementary a) = None
              \<longrightarrow> (\<exists>msg. fst (complement self s) = Inl (ValueError msg)))"
  using assms by (simp add: complement_def getitem_def)

text \<open>
  The three cases at records of the module: \<^verbatim>\<open>has_units\<close> (no complementary),
  \<^verbatim>\<open>has_part\<close> (complementary \<^verbatim>\<open>part_of\<close>, object 3), and a record whose
  complementary \<^verbatim>\<open>develops_into\<close> is not registered.
\<close>

theorem complement_contract_witness:
  "fst (complement 4 seeded) = Inr None
   \<and> fst (complement 2 seeded) = Inr (Some 3)
   \<and> (\<exists>msg. fst (complement 6 (snd (Relationship ''develops_from''
          (no_kwargs\<lparr>kw_complementary := Some ''develops_into''\<rparr>) seeded)))
        = Inl (ValueError msg))"
proof -
  let ?s = "snd (Relationship ''develops_from''
          (no_kwargs\<lparr>kw_complementary := Some ''develops_into''\<rparr>) seeded)"
  have units: "attrs_of seeded 4 = Some \<lparr>obo_name = ''has_units'', symmetry = Some False,
      transitivity = None, reflexivity = None, complementary = [], prefix = [],
      direction = [], comment = [], aliases = []\<rparr>"
    by (simp add: seeded_eq attrs_of_def)
  have part: "attrs_of seeded 2 = Some \<lparr>obo_name = ''has_part'', symmetry = Some False,
      transitivity = Some True, reflexivity = Some True, complementary = ''part_of'',
      prefix = [], direction = ''topdown'', comment = [], aliases = []\<rparr>"
    by (simp add: seeded_eq attrs_of_def)
  have part_of: "map_of (instances seeded) ''part_of'' = Some 3"
    by (simp add: seeded_eq)
  have dev: "attrs_of ?s 6 = Some \<lparr>obo_name = ''develops_from'', symmetry = None,
      transitivity = None, reflexivity = None, complementary = ''develops_into'',
      prefix = [], direction = [], comment = [], aliases = []\<rparr>"
    by (simp add: seeded_eq construction_defs attrs_of_def)
  have missing: "map_of (instances ?s) ''develops_into'' = None"
    by (simp add: seeded_eq construction_defs)
  show ?thesis
    using complement_contract [OF units] complement_contract [OF part]
      complement_contract [OF dev] part_of missing
    by simp
qed

text \<open>
  Claim C7. After the module's registrations, \<^verbatim>\<open>is_a\<close>, \<^verbatim>\<open>can_be\<close>,
  \<^verbatim>\<open>has_part\<close> and \<^verbatim>\<open>part_of\<close> are the objects 0, 1, 2 and 3; the complement of
  0 is 1 and of 1 is 0, the complement of 2 is 3 and of 3 is 2. So the complement of
  the complement of each of the four is the same object again.
\<close>

theorem complement_involution_on_seeds:
  "map_of (instances seeded) ''is_a'' = Some 0
   \<and> map_of (instances seeded) ''can_be'' = Some 1
   \<and> map_of (instances seeded) ''has_part'' = Some 2
   \<and> map_of (instances seeded) ''part_of'' = Some 3
   \<and> fst (complement 0 seeded) = Inr (Some 1) \<and> fst (complement 1 seeded) = Inr (Some 0)
   \<and> fst (complement 2 seeded) = Inr (Some 3) \<and> fst (complement 3 seeded) = Inr (Some 2)"
  by (simp add: seeded_eq complement_def attrs_of_def getitem_def)

text \<open>
  Claim C10. \<^verbatim>\<open>complement()\<close> leaves the state as it found it, on every object and
  in every state: when it returns a record, when it returns \<^verbatim>\<open>None\<close>, and when it
  raises.
\<close>

theorem complement_read_only:
  "snd (complement self s) = s"
  by (simp add: complement_def split: option.splits sum.splits)

section \<open>Classification\<close>

text \<open>
  Claim C8. After the module's registrations and nothing else, \<^verbatim>\<open>bottomup()\<close>
  returns the objects 0 and 3, which are \<^verbatim>\<open>is_a\<close> and \<^verbatim>\<open>part_of\<close>, and
  \<^verbatim>\<open>topdown()\<close> returns the objects 1 and 2, which are \<^verbatim>\<open>can_be\<close> and
  \<^verbatim>\<open>has_part\<close>: each once, in the order of registration, although the alias key
  \<^verbatim>\<open>is_part\<close> also maps to object 3. The state is unchanged.
\<close>

theorem classification_partition:
  "bottomup seeded = (Inr [0, 3], seeded)
   \<and> topdown seeded = (Inr [1, 2], seeded)
   \<and> map (map_option obo_name \<circ> attrs_of seeded) [0, 3] = [Some ''is_a'', Some ''part_of'']
   \<and> map (map_option obo_name \<circ> attrs_of seeded) [1, 2] = [Some ''can_be'', Some ''has_part'']
   \<and> map_of (instances seeded) ''is_part'' = Some 3"
  by (simp add: seeded_eq bottomup_def topdown_def values_of_def attrs_of_def unique_everseen_def)

section \<open>Pickling\<close>

text \<open>
  Claim C5. A record with attributes is written as its name alone (no state), and
  reading that name where it is registered returns the registered object and changes
  nothing. The states of writing and of reading may differ.
\<close>

theorem pickle_roundtrip_identity:
  assumes "attrs_of s self = Some a"
    and "map_of (instances s') (obo_name a) = Some r"
  shows "dumps self s = Inr (obo_name a, None) \<and> loads (obo_name a, None) s' = (r, s')"
  using assms by (simp add: dumps_def getnewargs_def getstate_def loads_def relationship_new_def)

text \<open>
  The example of the class docstring: \<^verbatim>\<open>is_a\<close> is object 0; it is written as
  \<^verbatim>\<open>'is_a'\<close> and read back as object 0.
\<close>

theorem pickle_roundtrip_identity_witness:
  "map_of (instances seeded) ''is_a'' = Some 0
   \<and> dumps 0 seeded = Inr (''is_a'', None)
   \<and> loads (''is_a'', None) seeded = (0, seeded)"
proof -
  have isa: "attrs_of seeded 0 = Some \<lparr>obo_name = ''is_a'', symmetry = Some False,
      transitivity = Some True, reflexivity = Some True, complementary = ''can_be'',
      prefix = [], direction = ''bottomup'', comment = [], aliases = []\<rparr>"
    by (simp add: seeded_eq attrs_of_def)
  have reg: "map_of (instances seeded) ''is_a'' = Some 0"
    by (simp add: seeded_eq)
  have reg': "map_of (instances seeded) (obo_name \<lparr>obo_name = ''is_a'', symmetry = Some False,
      transitivity = Some True, reflexivity = Some True, complementary = ''can_be'',
      prefix = [], direction = ''bottomup'', comment = [], aliases = []\<rparr>) = Some 0"
    using reg by simp
  show ?thesis
    using pickle_roundtrip_identity [OF isa reg'] reg by simp
qed

text \<open>
  Claim C6, as stated, fails: reading an unknown name calls \<^verbatim>\<open>__new__\<close> only, and
  \<^verbatim>\<open>__new__\<close> does not write to \<^verbatim>\<open>_instances\<close>. After the module's
  registrations, reading \<^verbatim>\<open>'regulates'\<close> leaves \<^verbatim>\<open>'regulates'\<close> unregistered.
\<close>

theorem loads_unknown_counterexample:
  "map_of (instances seeded) ''regulates'' = None \<and>
   map_of (instances (snd (loads (''regulates'', None) seeded))) ''regulates'' = None"
  by (simp add: seeded_eq loads_def relationship_new_def)

text \<open>
  Claim C6, amended. Reading a name that is not registered does not fail: it yields a
  newly allocated object (an address not in use before) with no attribute set, and
  leaves \<^verbatim>\<open>_instances\<close> unchanged, so the name stays unregistered.
\<close>

theorem loads_unknown_name:
  assumes "map_of (instances s) (fst p) = None"
  shows "fst (loads p s) = length (heap s)
       \<and> attrs_of s (fst (loads p s)) = None
       \<and> attrs_of (snd (loads p s)) (fst (loads p s)) = None
       \<and> heap (snd (loads p s)) = heap s @ [None]
       \<and> instances (snd (loads p s)) = instances s"
  using assms
  by (simp add: loads_def relationship_new_def setstate_def attrs_of_def split: option.splits)

theorem loads_unknown_name_witness:
  "fst (loads (''regulates'', None) seeded) = 6
   \<and> attrs_of (snd (loads (''regulates'', None) seeded)) 6 = None
   \<and> instances (snd (loads (''regulates'', None) seeded)) = instances seeded"
proof -
  have h: "map_of (instances seeded) (fst (''regulates'', None :: attrs option)) = None"
    by (simp add: seeded_eq)
  show ?thesis
    using loads_unknown_name [OF h] unfolding seeded_heap_length by (elim conjE) simp
qed

section \<open>The OBO stanza adapter\<close>

text \<open>
  Claim C9, as stated, fails: without an \<^verbatim>\<open>is_antisymetric\<close> key the code ends
  with \<^verbatim>\<open>symmetry = symmetry or None\<close>, which turns \<^verbatim>\<open>False\<close> into \<^verbatim>\<open>None\<close>.
  The stanza \<^verbatim>\<open>{'id': 'regulates', 'is_symmetric': 'false'}\<close>, read after the
  module's registrations, gives object 6 with symmetry \<^verbatim>\<open>None\<close>, not \<^verbatim>\<open>False\<close>.
\<close>

theorem adapter_symmetry_counterexample:
  "fst (from_obo_dict (map_of [(''id'', ''regulates''), (''is_symmetric'', ''false'')]) seeded)
     = Inr 6
   \<and> map_option symmetry
       (attrs_of (snd (from_obo_dict
          (map_of [(''id'', ''regulates''), (''is_symmetric'', ''false'')]) seeded)) 6)
     = Some None"
  by (simp add: seeded_eq from_obo_dict_def construction_defs attrs_of_def or_None_def
      lower_def lower_char_def Let_def)

text \<open>
  Claim C9, amended. For every stanza whose id is not yet registered, the adapter
  returns a new record whose symmetry is: when \<^verbatim>\<open>is_antisymetric\<close> is present,
  whether its value equals \<^verbatim>\<open>"false"\<close> ignoring case (so \<^verbatim>\<open>"false"\<close> gives true,
  a value other than unknown, also when \<^verbatim>\<open>is_symmetric\<close> is absent); when
  \<^verbatim>\<open>is_antisymetric\<close> is absent, true if \<^verbatim>\<open>is_symmetric\<close> is present and equals
  \<^verbatim>\<open>"true"\<close> ignoring case, and unknown otherwise (so \<^verbatim>\<open>is_symmetric = "false"\<close>
  gives unknown).
\<close>

theorem adapter_symmetry:
  assumes "d ''id'' = Some ident"
    and "map_of (instances s) ident = None"
  shows "fst (from_obo_dict d s) = Inr (length (heap s))
       \<and> map_option symmetry (attrs_of (snd (from_obo_dict d s)) (length (heap s))) =
           Some (case d ''is_antisymetric'' of
                   Some v \<Rightarrow> Some (lower v = ''false'')
                 | None \<Rightarrow>
                     (case d ''is_symmetric'' of
                        Some v \<Rightarrow> if lower v = ''true'' then Some True else None
                      | None \<Rightarrow> None))"
proof -
  let ?sym = "case d ''is_antisymetric'' of
                Some v \<Rightarrow> Some (lower v = ''false'')
              | None \<Rightarrow> or_None (case d ''is_symmetric'' of
                                    Some v \<Rightarrow> Some (lower v = ''true'') | None \<Rightarrow> None)"
  obtain kw where call:
      "from_obo_dict d s = (Inr (fst (Relationship ident kw s)), snd (Relationship ident kw s))"
    and kw: "kw_symmetry kw = ?sym"
    using assms by (simp add: from_obo_dict_def Let_def case_prod_beta)
  have r: "fst (Relationship ident kw s) = length (heap s)"
    using assms(2) by (rule Relationship_fresh)
  have "map_option symmetry
          (attrs_of (snd (Relationship ident kw s)) (fst (Relationship ident kw s)))
          = Some (kw_symmetry kw)"
    using assms(2) by (simp add: Relationship_fresh_attrs)
  then have "map_option symmetry (attrs_of (snd (from_obo_dict d s)) (length (heap s)))
               = Some ?sym"
    using call r kw by simp
  moreover have "?sym = (case d ''is_antisymetric'' of
                   Some v \<Rightarrow> Some (lower v = ''false'')
                 | None \<Rightarrow>
                     (case d ''is_symmetric'' of
                        Some v \<Rightarrow> if lower v = ''true'' then Some True else None
                      | None \<Rightarrow> None))"
    by (simp add: or_None_def split: option.splits)
  ultimately show ?thesis using call r by simp
qed

text \<open>
  Three stanzas for the unregistered id \<^verbatim>\<open>regulates\<close>: \<^verbatim>\<open>is_antisymetric: False\<close>
  alone gives true, \<^verbatim>\<open>is_symmetric: false\<close> alone gives unknown, and
  \<^verbatim>\<open>is_symmetric: TRUE\<close> alone gives true.
\<close>

theorem adapter_symmetry_witness:
  "map_option symmetry
       (attrs_of (snd (from_obo_dict
          [''id'' \<mapsto> ''regulates'', ''is_antisymetric'' \<mapsto> ''False''] seeded)) 6)
     = Some (Some True)
   \<and> map_option symmetry
       (attrs_of (snd (from_obo_dict
          [''id'' \<mapsto> ''regulates'', ''is_symmetric'' \<mapsto> ''false''] seeded)) 6)
     = Some None
   \<and> map_option symmetry
       (attrs_of (snd (from_obo_dict
          [''id'' \<mapsto> ''regulates'', ''is_symmetric'' \<mapsto> ''TRUE''] seeded)) 6)
     = Some (Some True)"
proof -
  let ?d1 = "[''id'' \<mapsto> ''regulates'', ''is_antisymetric'' \<mapsto> ''False'']"
  let ?d2 = "[''id'' \<mapsto> ''regulates'', ''is_symmetric'' \<mapsto> ''false'']"
  let ?d3 = "[''id'' \<mapsto> ''regulates'', ''is_symmetric'' \<mapsto> ''TRUE'']"
  have fresh: "map_of (instances seeded) ''regulates'' = None"
    by (simp add: seeded_eq)
  have low: "lower ''False'' = ''false''" "lower ''false'' \<noteq> ''true''" "lower ''TRUE'' = ''true''"
    by (simp_all add: lower_def lower_char_def)
  have id1: "?d1 ''id'' = Some ''regulates''" by simp
  have id2: "?d2 ''id'' = Some ''regulates''" by simp
  have id3: "?d3 ''id'' = Some ''regulates''" by simp
  have "map_option symmetry (attrs_of (snd (from_obo_dict ?d1 seeded)) 6) = Some (Some True)"
    using adapter_symmetry [of ?d1 "''regulates''" seeded, OF id1 fresh]
    unfolding seeded_heap_length by (elim conjE) (simp add: low)
  moreover
  have "map_option symmetry (attrs_of (snd (from_obo_dict ?d2 seeded)) 6) = Some None"
    using adapter_symmetry [of ?d2 "''regulates''" seeded, OF id2 fresh]
    unfolding seeded_heap_length by (elim conjE) (simp add: low)
  moreover
  have "map_option symmetry (attrs_of (snd (from_obo_dict ?d3 seeded)) 6) = Some (Some True)"
    using adapter_symmetry [of ?d3 "''regulates''" seeded, OF id3 fresh]
    unfolding seeded_heap_length by (elim conjE) (simp add: low)
  ultimately show ?thesis by simp
qed

end
